theory Spec2Isabelle
  imports Main "HOL-Library.Sublist" "HOL-Library.AList"
begin

section \<open>JavaScript values shared by both source files\<close>

text \<open>
  A JavaScript string is modelled as an Isabelle \<open>string\<close>: one \<open>char\<close> per code
  unit, for code units below 256. Numbers that the code only counts, compares or prints
  (sizes, positions, line numbers, counts) are \<open>nat\<close> or \<open>int\<close>; all of them stay far
  below \<open>2 ^ 53\<close>, where JavaScript's doubles are exact.
\<close>

text \<open>The decimal digit for \<open>d < 10\<close>.\<close>

definition digit_char :: "nat \<Rightarrow> char" where
  "digit_char d = ''0123456789'' ! d"

text \<open>\<open>String(n)\<close> and \<open>`${n}`\<close> for a natural number: its decimal digits.\<close>

fun dec :: "nat \<Rightarrow> string" where
  "dec n = (if n < 10 then [digit_char n] else dec (n div 10) @ [digit_char (n mod 10)])"

declare dec.simps [simp del]

text \<open>The character class \<open>\d\<close> of a regular expression without the unicode flag.\<close>

definition is_digit :: "char \<Rightarrow> bool" where
  "is_digit c = (48 \<le> (of_char c :: nat) \<and> (of_char c :: nat) \<le> 57)"

text \<open>\<open>parseInt(ds, 10)\<close> on a string of decimal digits.\<close>

definition parseInt :: "string \<Rightarrow> nat" where
  "parseInt ds = foldl (\<lambda>a c. 10 * a + ((of_char c :: nat) - 48)) 0 ds"

text \<open>
  White space and line terminators that \<open>String.prototype.trim\<close> strips, among the code
  units below 256: tab, line feed, vertical tab, form feed, carriage return, space and
  the no-break space.
\<close>

definition isWhiteSpace :: "char \<Rightarrow> bool" where
  "isWhiteSpace c = ((of_char c :: nat) \<in> {9, 10, 11, 12, 13, 32, 160})"

definition trim :: "string \<Rightarrow> string" where
  "trim s = rev (dropWhile isWhiteSpace (rev (dropWhile isWhiteSpace s)))"

section \<open>The pinData mixin (packages/editor-ui/src/components/mixins/pinData.ts)\<close>

text \<open>
  What the mixin reaches through \<open>this\<close> and its imports, none of which is defined in
  the file itself:
  \<^item> \<open>JSON_parse\<close>: the runtime's \<open>JSON.parse\<close>, reduced to what the method observes:
    \<open>None\<close> when parsing succeeds, \<open>Some m\<close> when it throws a SyntaxError whose
    \<open>message\<close> is \<open>m\<close>;
  \<^item> \<open>toUpperCase\<close>: \<open>String.prototype.toUpperCase\<close>;
  \<^item> \<open>baseText\<close>: \<open>this.$locale.baseText\<close>;
  \<^item> \<open>pinDataSize\<close>: the store getter \<open>this.$store.getters['pinDataSize']\<close>;
  \<^item> \<open>stringSizeInBytes\<close> from \<open>@/components/helpers\<close>;
  \<^item> \<open>MAX_WORKFLOW_PINNED_DATA_SIZE\<close> from \<open>@/constants\<close>.
\<close>

record pin_context =
  JSON_parse :: "string \<Rightarrow> string option"
  toUpperCase :: "string \<Rightarrow> string"
  baseText :: "string \<Rightarrow> string"
  pinDataSize :: nat
  stringSizeInBytes :: "string \<Rightarrow> nat"
  MAX_WORKFLOW_PINNED_DATA_SIZE :: nat

text \<open>One call \<open>this.$showError(error, title)\<close>, with the message of the error.\<close>

datatype shown_error = ShowError (shown_message: string) (shown_title: string)

text \<open>
  \<open>message.replace(toRemove, '')\<close> for the global pattern
  \<open>/JSON\.parse:|of the JSON data/g\<close>: scanning from the left, every occurrence of one of
  the two literals is dropped and the scan goes on after it.
\<close>

fun remove_toRemove :: "string \<Rightarrow> string" where
  "remove_toRemove [] = []"
| "remove_toRemove (c # cs) =
     (if take 11 (c # cs) = ''JSON.parse:'' then remove_toRemove (drop 10 cs)
      else if take 16 (c # cs) = ''of the JSON data'' then remove_toRemove (drop 15 cs)
      else c # remove_toRemove cs)"

text \<open>
  The pattern \<open>/at position (\d+)/\<close> matches at the start of \<open>s\<close>: the literal, then at
  least one digit. The capture group is the longest run of digits there.
\<close>

definition position_here :: "string \<Rightarrow> bool" where
  "position_here s =
     (take 12 s = ''at position '' \<and> takeWhile is_digit (drop 12 s) \<noteq> [])"

text \<open>
  \<open>error.message.match(/at position (\d+)/)\<close>: the capture group of the leftmost match,
  \<open>None\<close> for \<open>null\<close>.
\<close>

fun positionMatch :: "string \<Rightarrow> string option" where
  "positionMatch [] = None"
| "positionMatch (c # cs) =
     (if position_here (c # cs) then Some (takeWhile is_digit (drop 12 (c # cs)))
      else positionMatch cs)"

text \<open>
  \<open>(data.slice(0, position).match(/\n/g) || []).length\<close>: the number of line feeds
  among the first \<open>position\<close> code units of \<open>data\<close>.
\<close>

definition lineBreaksUpToPosition :: "string \<Rightarrow> nat \<Rightarrow> nat" where
  "lineBreaksUpToPosition data position = count_list (take position data) (CHR 0x0A)"

text \<open>The \<open>catch\<close> block of \<open>isValidPinDataJSON\<close>, up to the final \<open>error.message\<close>.\<close>

definition json_error_message :: "pin_context \<Rightarrow> string \<Rightarrow> string \<Rightarrow> string" where
  "json_error_message ctx data raw =
     (let message = trim (remove_toRemove raw);
          m1 = toUpperCase ctx (take 1 message) @ drop 1 message;
          m2 = (case positionMatch raw of
                  None \<Rightarrow> m1
                | Some ds \<Rightarrow>
                    m1 @ '', line '' @ dec (lineBreaksUpToPosition data (parseInt ds) + 1))
      in m2 @ ''.'')"

text \<open>
  Each method returns its boolean together with the calls of \<open>$showError\<close> it made, in
  order.
\<close>

definition isValidPinDataJSON :: "pin_context \<Rightarrow> string \<Rightarrow> bool \<times> shown_error list" where
  "isValidPinDataJSON ctx data =
     (case JSON_parse ctx data of
        None \<Rightarrow> (True, [])
      | Some raw \<Rightarrow>
          (False,
           [ShowError (json_error_message ctx data raw)
              (baseText ctx ''runData.editOutputInvalid'')]))"

definition isValidPinDataSize :: "pin_context \<Rightarrow> string \<Rightarrow> bool \<times> shown_error list" where
  "isValidPinDataSize ctx data =
     (if pinDataSize ctx + stringSizeInBytes ctx data > MAX_WORKFLOW_PINNED_DATA_SIZE ctx
      then (False,
            [ShowError (baseText ctx ''ndv.pinData.error.tooLarge.description'')
               (baseText ctx ''ndv.pinData.error.tooLarge.title'')])
      else (True, []))"

text \<open>\<open>a && b\<close>: \<open>b\<close> is evaluated only when \<open>a\<close> is true.\<close>

definition isValidPinData :: "pin_context \<Rightarrow> string \<Rightarrow> bool \<times> shown_error list" where
  "isValidPinData ctx data =
     (case isValidPinDataJSON ctx data of
        (False, shown) \<Rightarrow> (False, shown)
      | (True, shown) \<Rightarrow>
          (case isValidPinDataSize ctx data of
             (ok, shown') \<Rightarrow> (ok, shown @ shown')))"

section \<open>InternalHooksClass (the telemetry hooks)\<close>

subsection \<open>Values, objects and promises\<close>

text \<open>
  \<open>workflow.id\<close> is a number or a string; database ids are integers. \<open>!workflow.id\<close>
  holds for \<open>undefined\<close>, \<open>0\<close> and the empty string.
\<close>

datatype workflow_id = NumberId int | StringId string

definition id_truthy :: "workflow_id option \<Rightarrow> bool" where
  "id_truthy i =
     (case i of None \<Rightarrow> False | Some (NumberId n) \<Rightarrow> n \<noteq> 0 | Some (StringId s) \<Rightarrow> s \<noteq> [])"

fun id_toString :: "workflow_id \<Rightarrow> string" where
  "id_toString (StringId s) = s"
| "id_toString (NumberId n) = (if n < 0 then ''-'' @ dec (nat (- n)) else dec (nat n))"

text \<open>Truthiness of an optional string: present and not empty.\<close>

definition truthy :: "string option \<Rightarrow> bool" where
  "truthy s = (case s of None \<Rightarrow> False | Some v \<Rightarrow> v \<noteq> [])"

record INode =
  node_name :: string
  node_type :: string

record INote =
  overlapping :: bool
  note_height :: int
  note_width :: int

text \<open>\<open>INodesGraph\<close>; \<open>graph_notes\<close> is its object \<open>notes\<close>, in \<open>Object.keys\<close> order.\<close>

record INodesGraph =
  node_types :: "string list"
  node_connections :: "(string \<times> string) list"
  nodes :: "(string \<times> string) list"
  graph_notes :: "(string \<times> INote) list"

record INodeGraphResult =
  nodeGraph :: INodesGraph
  nameIndices :: "(string \<times> string) list"
  webhookNodeName :: "string option"

text \<open>
  The values that the hooks put into event payloads. An object is the list of its
  properties in insertion order; \<open>AList.update\<close> is the assignment \<open>obj[k] = v\<close>
  (an existing key keeps its place, a new one goes last), which is also what a spread
  followed by further keys does.
\<close>

datatype jvalue =
    JUndefined
  | JString string
  | JNumber int
  | JBoolean bool
  | JStrings "string list"
  | JId workflow_id
  | JGraph INodesGraph
  | JObject "(string \<times> jvalue) list"

type_synonym properties = "(string \<times> jvalue) list"

definition get_property :: "properties \<Rightarrow> string \<Rightarrow> jvalue" where
  "get_property obj k = (case map_of obj k of None \<Rightarrow> JUndefined | Some v \<Rightarrow> v)"

definition optional_string :: "string option \<Rightarrow> jvalue" where
  "optional_string s = (case s of None \<Rightarrow> JUndefined | Some v \<Rightarrow> JString v)"

definition optional_id :: "workflow_id option \<Rightarrow> jvalue" where
  "optional_id i = (case i of None \<Rightarrow> JUndefined | Some v \<Rightarrow> JId v)"

text \<open>
  A \<open>TypeError\<close> is what the runtime throws on reading a property (named here) of
  \<open>undefined\<close>; a \<open>Failure\<close> is the reason a collaborator rejects its promise with.
\<close>

datatype js_error = TypeError string | Failure string

text \<open>The settled state of a \<open>Promise<void>\<close>.\<close>

datatype outcome = Resolved | Rejected js_error

text \<open>
  \<open>Promise.all\<close>: resolved when every promise is; otherwise rejected with the reason of
  a rejected one (the first in the array stands for the first in time).
\<close>

fun Promise_all :: "outcome list \<Rightarrow> outcome" where
  "Promise_all [] = Resolved"
| "Promise_all (Resolved # ps) = Promise_all ps"
| "Promise_all (Rejected e # ps) = Rejected e"

subsection \<open>The workflow and its run data\<close>

record IWorkflowBase =
  wf_id :: "workflow_id option"
  wf_nodes :: "INode list"
  wf_tags :: "string list option"

record ExecutionError =
  err_message :: string
  err_node :: "INode option"

record INodeExecutionData =
  json :: properties

text \<open>
  \<open>ITaskData.data\<close> is optional; it maps a connection type (\<open>main\<close>) to an array whose
  entries are arrays of items or \<open>null\<close>.
\<close>

record ITaskData =
  task_data :: "(string \<times> INodeExecutionData list option list) list option"

record IResultData =
  rd_error :: "ExecutionError option"
  rd_runData :: "(string \<times> ITaskData list) list"
  lastNodeExecuted :: "string option"

record IStartData =
  destinationNode :: "string option"

record IRunExecutionData =
  startData :: "IStartData option"
  resultData :: IResultData

record IRun =
  run_data :: IRunExecutionData
  finished :: "bool option"
  mode :: string

record IExecutionTrackProperties =
  workflow_id :: string
  success :: bool
  error_node_type :: "string option"
  is_manual :: bool
  user_id :: "string option"
  version_cli :: string
  execution_mode :: "string option"
  error_message :: "string option"
  node_graph :: "INodesGraph option"
  node_graph_string :: "string option"
  error_node_id :: "string option"

subsection \<open>Collaborators\<close>

text \<open>
  The \<open>Telemetry\<close> object (\<open>./telemetry\<close>, not part of the file): each method returns a
  promise, modelled by how it settles. \<open>trackN8nStop\<close> is \<open>Some out\<close> when its promise
  settles with \<open>out\<close> before the timer of \<open>onN8nStop\<close> fires and \<open>None\<close> when it does
  not.
\<close>

record Telemetry =
  identify :: "properties \<Rightarrow> outcome"
  track :: "string \<Rightarrow> properties \<Rightarrow> outcome"
  trackWorkflowExecution :: "IExecutionTrackProperties \<Rightarrow> outcome"
  trackN8nStop :: "outcome option"

text \<open>
  What the file imports: \<open>TelemetryHelpers\<close> from n8n-workflow, \<open>snakeCase\<close> from
  change-case, \<open>BinaryDataManager\<close> from n8n-core and the runtime's \<open>JSON.stringify\<close>.
  \<open>'nt\<close> is \<open>INodeTypes\<close>. The helpers are taken to return a value, and
  \<open>BinaryDataManager.getInstance()\<close> to return the manager, so that
  \<open>persistBinaryDataForExecutionId\<close> is the promise of
  \<open>BinaryDataManager.getInstance().persistBinaryDataForExecutionId(executionId)\<close>.
\<close>

record 'nt modules =
  generateNodesGraph :: "IWorkflowBase \<Rightarrow> 'nt \<Rightarrow> INodeGraphResult"
  getNodeTypeForName :: "IWorkflowBase \<Rightarrow> string \<Rightarrow> INode option"
  snakeCase :: "string \<Rightarrow> string"
  JSON_stringify :: "INodesGraph \<Rightarrow> string"
  persistBinaryDataForExecutionId :: "string \<Rightarrow> outcome"

subsection \<open>The class\<close>

record 'nt InternalHooksClass =
  telemetry :: Telemetry
  versionCli :: string
  nodeTypes :: 'nt

definition constructor :: "Telemetry \<Rightarrow> string \<Rightarrow> 'nt \<Rightarrow> 'nt InternalHooksClass" where
  "constructor telemetry' versionCli' nodeTypes' =
     \<lparr>telemetry = telemetry', versionCli = versionCli', nodeTypes = nodeTypes'\<rparr>"

text \<open>What a hook does that its caller or a collaborator can observe, in order.\<close>

datatype effect =
    Identify properties
  | Track string properties
  | TrackWorkflowExecution IExecutionTrackProperties
  | TrackN8nStop
  | PersistBinaryData string
  | SetTimeout nat
  | ConsoleLog jvalue

text \<open>
  A call of a hook: the instance after the call, the effects, and how the returned
  promise settles. The hooks are \<open>async\<close>: an exception thrown in the body rejects the
  returned promise.
\<close>

record 'nt hook_run =
  this_after :: "'nt InternalHooksClass"
  effects :: "effect list"
  settled :: outcome

text \<open>\<open>return this.telemetry.track(name, props)\<close>.\<close>

definition return_track :: "'nt InternalHooksClass \<Rightarrow> string \<Rightarrow> properties \<Rightarrow> 'nt hook_run" where
  "return_track this name props =
     \<lparr>this_after = this, effects = [Track name props],
      settled = track (telemetry this) name props\<rparr>"

definition onServerStarted ::
  "'nt InternalHooksClass \<Rightarrow> properties \<Rightarrow> jvalue \<Rightarrow> 'nt hook_run" where
  "onServerStarted this diagnosticInfo earliestWorkflowCreatedAt =
     (let info =
        [(''version_cli'', get_property diagnosticInfo ''versionCli''),
         (''db_type'', get_property diagnosticInfo ''databaseType''),
         (''n8n_version_notifications_enabled'',
            get_property diagnosticInfo ''notificationsEnabled''),
         (''n8n_disable_production_main_process'',
            get_property diagnosticInfo ''disableProductionWebhooksOnMainProcess''),
         (''n8n_basic_auth_active'', get_property diagnosticInfo ''basicAuthActive''),
         (''system_info'', get_property diagnosticInfo ''systemInfo''),
         (''execution_variables'', get_property diagnosticInfo ''executionVariables''),
         (''n8n_deployment_type'', get_property diagnosticInfo ''deploymentType''),
         (''n8n_binary_data_mode'', get_property diagnosticInfo ''binaryDataMode''),
         (''n8n_multi_user_allowed'', get_property diagnosticInfo ''n8n_multi_user_allowed''),
         (''smtp_set_up'', get_property diagnosticInfo ''smtp_set_up'')];
          started = AList.update ''earliest_workflow_created'' earliestWorkflowCreatedAt info
      in \<lparr>this_after = this,
          effects = [Identify info, Track ''Instance started'' started],
          settled = Promise_all [identify (telemetry this) info,
                                 track (telemetry this) ''Instance started'' started]\<rparr>)"

text \<open>
  \<open>answers\<close> is the record in \<open>Object.keys\<close> order; the loop assigns one property per
  key, so a later key that converts to the same name overwrites an earlier one.
\<close>

definition onPersonalizationSurveySubmitted ::
  "'nt InternalHooksClass \<Rightarrow> 'nt modules \<Rightarrow> string \<Rightarrow> (string \<times> string) list \<Rightarrow> 'nt hook_run" where
  "onPersonalizationSurveySubmitted this env userId answers =
     (let camelCaseKeys = map fst answers;
          personalizationSurveyData =
            foldl (\<lambda>obj camelCaseKey.
                     AList.update (snakeCase env camelCaseKey)
                       (optional_string (map_of answers camelCaseKey)) obj)
              [(''user_id'', JString userId)] camelCaseKeys
      in return_track this ''User responded to personalization questions''
           personalizationSurveyData)"

definition onWorkflowCreated ::
  "'nt InternalHooksClass \<Rightarrow> 'nt modules \<Rightarrow> string \<Rightarrow> IWorkflowBase \<Rightarrow> bool \<Rightarrow> 'nt hook_run" where
  "onWorkflowCreated this env userId workflow publicApi =
     (let nodeGraph' = nodeGraph (generateNodesGraph env workflow (nodeTypes this))
      in return_track this ''User created workflow''
           [(''user_id'', JString userId),
            (''workflow_id'', optional_id (wf_id workflow)),
            (''node_graph'', JGraph nodeGraph'),
            (''node_graph_string'', JString (JSON_stringify env nodeGraph')),
            (''public_api'', JBoolean publicApi)])"

definition onWorkflowDeleted ::
  "'nt InternalHooksClass \<Rightarrow> string \<Rightarrow> string \<Rightarrow> bool \<Rightarrow> 'nt hook_run" where
  "onWorkflowDeleted this userId workflowId publicApi =
     return_track this ''User deleted workflow''
       [(''user_id'', JString userId),
        (''workflow_id'', JString workflowId),
        (''public_api'', JBoolean publicApi)]"

definition onWorkflowSaved ::
  "'nt InternalHooksClass \<Rightarrow> 'nt modules \<Rightarrow> string \<Rightarrow> IWorkflowBase \<Rightarrow> bool \<Rightarrow> 'nt hook_run" where
  "onWorkflowSaved this env userId workflow publicApi =
     (let nodeGraph' = nodeGraph (generateNodesGraph env workflow (nodeTypes this));
          notesCount = int (length (map fst (graph_notes nodeGraph')));
          overlappingCount = int (length (filter overlapping (map snd (graph_notes nodeGraph'))))
      in return_track this ''User saved workflow''
           [(''user_id'', JString userId),
            (''workflow_id'', optional_id (wf_id workflow)),
            (''node_graph'', JGraph nodeGraph'),
            (''node_graph_string'', JString (JSON_stringify env nodeGraph')),
            (''notes_count_overlapping'', JNumber overlappingCount),
            (''notes_count_non_overlapping'', JNumber (notesCount - overlappingCount)),
            (''version_cli'', JString (versionCli this)),
            (''num_tags'',
               JNumber (case wf_tags workflow of None \<Rightarrow> 0 | Some tags \<Rightarrow> int (length tags))),
            (''public_api'', JBoolean publicApi)])"

subsection \<open>onWorkflowPostExecute\<close>

text \<open>
  The block guarded by \<open>!properties.success && runData?.data.resultData.error\<close>: the
  properties with the error fields set, and \<open>nodeGraphResult\<close> when it was generated.
\<close>

definition error_properties ::
  "'nt InternalHooksClass \<Rightarrow> 'nt modules \<Rightarrow> IWorkflowBase \<Rightarrow> IRun \<Rightarrow>
   IExecutionTrackProperties \<Rightarrow> IExecutionTrackProperties \<times> INodeGraphResult option" where
  "error_properties this env workflow runData properties =
     (case rd_error (resultData (run_data runData)) of
        None \<Rightarrow> (properties, None)
      | Some err \<Rightarrow>
          if success properties then (properties, None)
          else
            let p1 = properties
                  \<lparr>error_message := Some (err_message err),
                   error_node_type := map_option node_type (err_node err)\<rparr>;
                errorNodeName = map_option node_name (err_node err);
                lastNode =
                  (case lastNodeExecuted (resultData (run_data runData)) of
                     None \<Rightarrow> None
                   | Some n \<Rightarrow> if n = [] then None else getNodeTypeForName env workflow n);
                p2 = (case lastNode of
                        None \<Rightarrow> p1
                      | Some l \<Rightarrow> p1\<lparr>error_node_type := Some (node_type l)\<rparr>);
                errorNodeName' = (case lastNode of
                        None \<Rightarrow> errorNodeName
                      | Some l \<Rightarrow> Some (node_name l))
            in if is_manual p2 then
                 let nodeGraphResult = generateNodesGraph env workflow (nodeTypes this);
                     p3 = p2
                       \<lparr>node_graph := Some (nodeGraph nodeGraphResult),
                        node_graph_string :=
                          Some (JSON_stringify env (nodeGraph nodeGraphResult))\<rparr>;
                     p4 = (if truthy errorNodeName'
                           then p3\<lparr>error_node_id :=
                                  map_of (nameIndices nodeGraphResult) (the errorNodeName')\<rparr>
                           else p3)
                 in (p4, Some nodeGraphResult)
               else (p2, None))"

text \<open>
  \<open>runData.data.resultData.runData[webhookNodeName][0].data?.main[0]\<close>: only \<open>data\<close> is
  read through \<open>?.\<close>; every other read of a property of \<open>undefined\<close> throws.
\<close>

definition webhook_main_data ::
  "(string \<times> ITaskData list) list \<Rightarrow> string \<Rightarrow> js_error + INodeExecutionData list option" where
  "webhook_main_data runData' name =
     (case map_of runData' name of
        None \<Rightarrow> Inl (TypeError ''0'')
      | Some [] \<Rightarrow> Inl (TypeError ''data'')
      | Some (taskData # _) \<Rightarrow>
          (case task_data taskData of
             None \<Rightarrow> Inr None
           | Some connections \<Rightarrow>
               (case map_of connections ''main'' of
                  None \<Rightarrow> Inl (TypeError ''0'')
                | Some [] \<Rightarrow> Inr None
                | Some (md # _) \<Rightarrow> Inr md)))"

text \<open>
  The statements after \<open>console.log('A')\<close> in the \<open>else\<close> branch, up to the call of
  \<open>track\<close>: what they log, and the error when one of them throws.
\<close>

definition webhook_log ::
  "INodeGraphResult \<Rightarrow> IRun \<Rightarrow> effect list \<times> js_error option" where
  "webhook_log nodeGraphResult runData =
     (if truthy (webhookNodeName nodeGraphResult) then
        (case webhook_main_data (rd_runData (resultData (run_data runData)))
                (the (webhookNodeName nodeGraphResult)) of
           Inl e \<Rightarrow> ([ConsoleLog (JString ''B'')], Some e)
         | Inr None \<Rightarrow> ([ConsoleLog (JString ''B'')], None)
         | Inr (Some []) \<Rightarrow>
             ([ConsoleLog (JString ''B''), ConsoleLog (JString ''C'')], Some (TypeError ''json''))
         | Inr (Some (item # _)) \<Rightarrow>
             ([ConsoleLog (JString ''B''), ConsoleLog (JString ''C''),
               ConsoleLog (get_property (json item) ''headers'')], None))
      else ([], None))"

text \<open>
  The block guarded by the second \<open>if (properties.is_manual)\<close>: its effects, the promises
  pushed to \<open>promises\<close>, and the error when it throws.
\<close>

definition manual_exec_event ::
  "'nt InternalHooksClass \<Rightarrow> 'nt modules \<Rightarrow> IWorkflowBase \<Rightarrow> IRun \<Rightarrow>
   IExecutionTrackProperties \<Rightarrow> INodeGraphResult option \<Rightarrow>
   effect list \<times> outcome list \<times> js_error option" where
  "manual_exec_event this env workflow runData properties nodeGraphResult0 =
     (let nodeGraphResult1 =
            (case nodeGraphResult0 of
               None \<Rightarrow> generateNodesGraph env workflow (nodeTypes this)
             | Some g \<Rightarrow> g);
          manualExecEventProperties0 =
            [(''workflow_id'', optional_id (wf_id workflow)),
             (''status'', JString (if success properties then ''success'' else ''failed'')),
             (''error_message'', optional_string (error_message properties)),
             (''error_node_type'', optional_string (error_node_type properties)),
             (''node_graph'',
                (case node_graph properties of None \<Rightarrow> JUndefined | Some g \<Rightarrow> JGraph g)),
             (''node_graph_string'', optional_string (node_graph_string properties)),
             (''error_node_id'', optional_string (error_node_id properties))];
          nodeGraphResult =
            (if node_graph properties = None
             then generateNodesGraph env workflow (nodeTypes this)
             else nodeGraphResult1);
          manualExecEventProperties =
            (if node_graph properties = None
             then AList.update ''node_graph_string''
                    (JString (JSON_stringify env (nodeGraph nodeGraphResult)))
                    (AList.update ''node_graph'' (JGraph (nodeGraph nodeGraphResult))
                       manualExecEventProperties0)
             else manualExecEventProperties0);
          destination =
            (case startData (run_data runData) of
               None \<Rightarrow> None
             | Some sd \<Rightarrow> destinationNode sd)
      in if truthy destination then
           let props =
                 AList.update ''node_id''
                   (optional_string (map_of (nameIndices nodeGraphResult) (the destination)))
                   (AList.update ''node_type''
                      (optional_string
                         (map_option node_type
                            (getNodeTypeForName env workflow (the destination))))
                      manualExecEventProperties)
           in ([Track ''Manual node exec finished'' props],
               [track (telemetry this) ''Manual node exec finished'' props], None)
         else
           (case webhook_log nodeGraphResult runData of
              (logged, Some e) \<Rightarrow> (ConsoleLog (JString ''A'') # logged, [], Some e)
            | (logged, None) \<Rightarrow>
                (ConsoleLog (JString ''A'') # logged @
                   [Track ''Manual workflow exec finished'' manualExecEventProperties],
                 [track (telemetry this) ''Manual workflow exec finished''
                    manualExecEventProperties],
                 None)))"

text \<open>
  The body up to the final \<open>return\<close>, for a truthy \<open>workflow.id\<close>: the properties for
  \<open>trackWorkflowExecution\<close>, the effects so far, the promises pushed to \<open>promises\<close> after
  its first element, and the error when the body throws.
\<close>

definition assemble ::
  "'nt InternalHooksClass \<Rightarrow> 'nt modules \<Rightarrow> IWorkflowBase \<Rightarrow> IRun option \<Rightarrow> string option \<Rightarrow>
   IExecutionTrackProperties \<times> effect list \<times> outcome list \<times> js_error option" where
  "assemble this env workflow runData userId =
     (let properties0 =
            \<lparr>workflow_id = id_toString (the (wf_id workflow)),
             success = False,
             error_node_type = None,
             is_manual = False,
             user_id = None,
             version_cli = versionCli this,
             execution_mode = None,
             error_message = None,
             node_graph = None,
             node_graph_string = None,
             error_node_id = None\<rparr>;
          properties1 =
            (if truthy userId then properties0\<lparr>user_id := userId\<rparr> else properties0)
      in case runData of
           None \<Rightarrow> (properties1, [], [], None)
         | Some rd \<Rightarrow>
             let properties2 = properties1
                   \<lparr>execution_mode := Some (mode rd),
                    success := (finished rd = Some True),
                    is_manual := (mode rd = ''manual'')\<rparr>;
                 (properties, nodeGraphResult) =
                   error_properties this env workflow rd properties2
             in if is_manual properties then
                  (case manual_exec_event this env workflow rd properties nodeGraphResult of
                     (made, pushed, thrown) \<Rightarrow> (properties, made, pushed, thrown))
                else (properties, [], [], None))"

definition onWorkflowPostExecute ::
  "'nt InternalHooksClass \<Rightarrow> 'nt modules \<Rightarrow> string \<Rightarrow> IWorkflowBase \<Rightarrow> IRun option \<Rightarrow>
   string option \<Rightarrow> 'nt hook_run" where
  "onWorkflowPostExecute this env executionId workflow runData userId =
     (if \<not> id_truthy (wf_id workflow) then
        \<lparr>this_after = this, effects = [], settled = Resolved\<rparr>
      else
        (case assemble this env workflow runData userId of
           (properties, made, pushed, Some e) \<Rightarrow>
             \<lparr>this_after = this, effects = made, settled = Rejected e\<rparr>
         | (properties, made, pushed, None) \<Rightarrow>
             \<lparr>this_after = this,
              effects = made @ [PersistBinaryData executionId,
                                TrackWorkflowExecution properties],
              settled = Promise_all
                (Resolved # pushed @
                   [persistBinaryDataForExecutionId env executionId,
                    trackWorkflowExecution (telemetry this) properties])\<rparr>))"

subsection \<open>The other hooks\<close>

text \<open>
  \<open>Promise.race([timeoutPromise, this.telemetry.trackN8nStop()])\<close>, where the timer
  resolves \<open>timeoutPromise\<close> after 3000 milliseconds: the promise that settles first
  decides.
\<close>

definition onN8nStop :: "'nt InternalHooksClass \<Rightarrow> 'nt hook_run" where
  "onN8nStop this =
     \<lparr>this_after = this,
      effects = [SetTimeout 3000, TrackN8nStop],
      settled = (case trackN8nStop (telemetry this) of None \<Rightarrow> Resolved | Some out \<Rightarrow> out)\<rparr>"

definition onUserDeletion ::
  "'nt InternalHooksClass \<Rightarrow> string \<Rightarrow> properties \<Rightarrow> bool \<Rightarrow> 'nt hook_run" where
  "onUserDeletion this userId userDeletionData publicApi =
     return_track this ''User deleted user''
       (AList.update ''public_api'' (JBoolean publicApi)
          (AList.update ''user_id'' (JString userId) userDeletionData))"

text \<open>
  The remaining hooks pass their argument to \<open>track\<close> under a fixed event name.
\<close>

datatype forwarding_hook =
    onUserInvite
  | onUserReinvite
  | onUserRetrievedUser
  | onUserRetrievedAllUsers
  | onUserRetrievedExecution
  | onUserRetrievedAllExecutions
  | onUserRetrievedWorkflow
  | onUserRetrievedAllWorkflows
  | onUserUpdate
  | onUserInviteEmailClick
  | onUserPasswordResetEmailClick
  | onUserTransactionalEmail
  | onUserInvokedApi
  | onApiKeyDeleted
  | onApiKeyCreated
  | onUserPasswordResetRequestClick
  | onInstanceOwnerSetup
  | onUserSignup
  | onEmailFailed

fun event_name :: "forwarding_hook \<Rightarrow> string" where
  "event_name onUserInvite = ''User invited new user''"
| "event_name onUserReinvite = ''User resent new user invite email''"
| "event_name onUserRetrievedUser = ''User retrieved user''"
| "event_name onUserRetrievedAllUsers = ''User retrieved all users''"
| "event_name onUserRetrievedExecution = ''User retrieved execution''"
| "event_name onUserRetrievedAllExecutions = ''User retrieved all executions''"
| "event_name onUserRetrievedWorkflow = ''User retrieved workflow''"
| "event_name onUserRetrievedAllWorkflows = ''User retrieved all workflows''"
| "event_name onUserUpdate = ''User changed personal settings''"
| "event_name onUserInviteEmailClick = ''User clicked invite link from email''"
| "event_name onUserPasswordResetEmailClick = ''User clicked password reset link from email''"
| "event_name onUserTransactionalEmail = ''Instance sent transacptional email to user''"
| "event_name onUserInvokedApi = ''User invoked API''"
| "event_name onApiKeyDeleted = ''API key deleted''"
| "event_name onApiKeyCreated = ''API key created''"
| "event_name onUserPasswordResetRequestClick =
     ''User requested password reset while logged out''"
| "event_name onInstanceOwnerSetup = ''Owner finished instance setup''"
| "event_name onUserSignup = ''User signed up''"
| "event_name onEmailFailed = ''Instance failed to send transactional email to user''"

definition forward :: "'nt InternalHooksClass \<Rightarrow> forwarding_hook \<Rightarrow> properties \<Rightarrow> 'nt hook_run" where
  "forward this hook eventData = return_track this (event_name hook) eventData"

text \<open>A call of any method of the class, with its arguments.\<close>

datatype hook_call =
    OnServerStarted properties jvalue
  | OnPersonalizationSurveySubmitted string "(string \<times> string) list"
  | OnWorkflowCreated string IWorkflowBase bool
  | OnWorkflowDeleted string string bool
  | OnWorkflowSaved string IWorkflowBase bool
  | OnWorkflowPostExecute string IWorkflowBase "IRun option" "string option"
  | OnN8nStop
  | OnUserDeletion string properties bool
  | Forwarding forwarding_hook properties

fun invoke :: "'nt modules \<Rightarrow> 'nt InternalHooksClass \<Rightarrow> hook_call \<Rightarrow> 'nt hook_run" where
  "invoke env this (OnServerStarted info created) = onServerStarted this info created"
| "invoke env this (OnPersonalizationSurveySubmitted userId answers) =
     onPersonalizationSurveySubmitted this env userId answers"
| "invoke env this (OnWorkflowCreated userId workflow publicApi) =
     onWorkflowCreated this env userId workflow publicApi"
| "invoke env this (OnWorkflowDeleted userId workflowId publicApi) =
     onWorkflowDeleted this userId workflowId publicApi"
| "invoke env this (OnWorkflowSaved userId workflow publicApi) =
     onWorkflowSaved this env userId workflow publicApi"
| "invoke env this (OnWorkflowPostExecute executionId workflow runData userId) =
     onWorkflowPostExecute this env executionId workflow runData userId"
| "invoke env this OnN8nStop = onN8nStop this"
| "invoke env this (OnUserDeletion userId userDeletionData publicApi) =
     onUserDeletion this userId userDeletionData publicApi"
| "invoke env this (Forwarding hook eventData) = forward this hook eventData"

text \<open>A sequence of calls on one instance, each on the instance the previous one left.\<close>

fun invoke_all :: "'nt modules \<Rightarrow> 'nt InternalHooksClass \<Rightarrow> hook_call list \<Rightarrow> 'nt InternalHooksClass" where
  "invoke_all env this [] = this"
| "invoke_all env this (c # cs) = invoke_all env (this_after (invoke env this c)) cs"

subsection \<open>How the collaborators answer the calls a hook makes\<close>

text \<open>
  The settled state of the promise that an effect returns; the calls that return no
  promise count as resolved.
\<close>

fun effect_outcome :: "'nt InternalHooksClass \<Rightarrow> 'nt modules \<Rightarrow> effect \<Rightarrow> outcome" where
  "effect_outcome this env (Identify props) = identify (telemetry this) props"
| "effect_outcome this env (Track name props) = track (telemetry this) name props"
| "effect_outcome this env (TrackWorkflowExecution props) =
     trackWorkflowExecution (telemetry this) props"
| "effect_outcome this env TrackN8nStop =
     (case trackN8nStop (telemetry this) of None \<Rightarrow> Resolved | Some out \<Rightarrow> out)"
| "effect_outcome this env (PersistBinaryData executionId) =
     persistBinaryDataForExecutionId env executionId"
| "effect_outcome this env (SetTimeout ms) = Resolved"
| "effect_outcome this env (ConsoleLog v) = Resolved"

text \<open>The body of \<open>onWorkflowPostExecute\<close> throws before it reaches its final \<open>return\<close>.\<close>

definition assembly_throws ::
  "'nt InternalHooksClass \<Rightarrow> 'nt modules \<Rightarrow> IWorkflowBase \<Rightarrow> IRun option \<Rightarrow> string option \<Rightarrow> bool" where
  "assembly_throws this env workflow runData userId =
     (id_truthy (wf_id workflow) \<and>
      snd (snd (snd (assemble this env workflow runData userId))) \<noteq> None)"

section \<open>Example inputs\<close>

text \<open>
  A pin-data string with a syntax error on its third line, and a context whose
  \<open>JSON.parse\<close> answers it as V8 does.
\<close>

definition sample_data :: string where
  "sample_data = ''[1,\<newline>2,\<newline>}''"

definition sample_context :: pin_context where
  "sample_context =
     \<lparr>JSON_parse = (\<lambda>s. if s = sample_data
                         then Some ''Unexpected token } in JSON at position 7'' else None),
      toUpperCase = (\<lambda>s. s),
      baseText = (\<lambda>key. key),
      pinDataSize = 100,
      stringSizeInBytes = length,
      MAX_WORKFLOW_PINNED_DATA_SIZE = 12582912\<rparr>"

text \<open>A telemetry client whose promises all resolve, and one whose execution tracking fails.\<close>

definition sample_telemetry :: Telemetry where
  "sample_telemetry =
     \<lparr>identify = (\<lambda>props. Resolved),
      track = (\<lambda>name props. Resolved),
      trackWorkflowExecution = (\<lambda>props. Resolved),
      trackN8nStop = None\<rparr>"

definition failing_telemetry :: Telemetry where
  "failing_telemetry =
     sample_telemetry
       \<lparr>trackWorkflowExecution := (\<lambda>props. Rejected (Failure ''analytics unreachable''))\<rparr>"

definition sample_graph :: INodeGraphResult where
  "sample_graph =
     \<lparr>nodeGraph =
        \<lparr>node_types = [''n8n-nodes-base.webhook''],
         node_connections = [],
         nodes = [(''0'', ''n8n-nodes-base.webhook'')],
         graph_notes =
           [(''0'', \<lparr>overlapping = True, note_height = 80, note_width = 150\<rparr>),
            (''1'', \<lparr>overlapping = False, note_height = 80, note_width = 150\<rparr>)]\<rparr>,
      nameIndices = [(''Webhook'', ''0'')],
      webhookNodeName = Some ''Webhook''\<rparr>"

text \<open>
  \<open>snakeCase\<close> here is change-case's conversion on the two keys the examples use:
  \<open>codingSkill\<close> and \<open>coding_skill\<close> both become \<open>coding_skill\<close>.
\<close>

definition sample_modules :: "unit modules" where
  "sample_modules =
     \<lparr>generateNodesGraph = (\<lambda>workflow types. sample_graph),
      getNodeTypeForName =
        (\<lambda>workflow name. find (\<lambda>n. node_name n = name) (wf_nodes workflow)),
      snakeCase = (\<lambda>k. if k = ''codingSkill'' then ''coding_skill'' else k),
      JSON_stringify = (\<lambda>g. ''{}''),
      persistBinaryDataForExecutionId = (\<lambda>executionId. Resolved)\<rparr>"

definition sample_workflow :: IWorkflowBase where
  "sample_workflow =
     \<lparr>wf_id = Some (NumberId 12),
      wf_nodes = [\<lparr>node_name = ''Webhook'', node_type = ''n8n-nodes-base.webhook''\<rparr>],
      wf_tags = Some [''a'', ''b'']\<rparr>"

text \<open>A failed manual run of the whole workflow, with the data of the webhook node.\<close>

definition sample_run :: IRun where
  "sample_run =
     \<lparr>run_data =
        \<lparr>startData = None,
         resultData =
           \<lparr>rd_error = Some \<lparr>err_message = ''boom'', err_node = None\<rparr>,
            rd_runData =
              [(''Webhook'',
                [\<lparr>task_data =
                    Some [(''main'', [Some [\<lparr>json = [(''headers'', JString ''h'')]\<rparr>]])]\<rparr>])],
            lastNodeExecuted = Some ''Webhook''\<rparr>\<rparr>,
      finished = None,
      mode = ''manual''\<rparr>"

text \<open>An instance of the class on each of the two clients.\<close>

definition sample_hooks :: "unit InternalHooksClass" where
  "sample_hooks = constructor sample_telemetry ''0.180.0'' ()"

definition failing_hooks :: "unit InternalHooksClass" where
  "failing_hooks = constructor failing_telemetry ''0.180.0'' ()"

text \<open>The same run when the run data holds no entry for the webhook node.\<close>

definition absent_run :: IRun where
  "absent_run =
     sample_run\<lparr>run_data :=
       \<lparr>startData = None,
        resultData =
          \<lparr>rd_error = Some \<lparr>err_message = ''boom'', err_node = None\<rparr>,
           rd_runData = [],
           lastNodeExecuted = Some ''Webhook''\<rparr>\<rparr>\<rparr>"



text \<open>The workflow before it has an id, and the properties tracked for \<open>sample_run\<close>.\<close>

definition unsaved_workflow :: IWorkflowBase where
  "unsaved_workflow = sample_workflow\<lparr>wf_id := Some (NumberId 0)\<rparr>"

definition sample_properties :: IExecutionTrackProperties where
  "sample_properties =
     \<lparr>workflow_id = ''12'',
      success = False,
      error_node_type = Some ''n8n-nodes-base.webhook'',
      is_manual = True,
      user_id = Some ''u1'',
      version_cli = ''0.180.0'',
      execution_mode = Some ''manual'',
      error_message = Some ''boom'',
      node_graph = Some (nodeGraph sample_graph),
      node_graph_string = Some ''{}'',
      error_node_id = Some ''0''\<rparr>"

section \<open>Properties of the pinData mixin\<close>

lemma takeWhile_digits:
  assumes "\<forall>c \<in> set ds. is_digit c" "rest = [] \<or> \<not> is_digit (hd rest)"
  shows "takeWhile is_digit (ds @ rest) = ds"
  using assms by (cases rest) (auto simp: takeWhile_append2 takeWhile_eq_all_conv)

lemma position_here_literal:
  assumes "ds \<noteq> []" "\<forall>c \<in> set ds. is_digit c" "rest = [] \<or> \<not> is_digit (hd rest)"
  shows "position_here (''at position '' @ ds @ rest)"
    and "takeWhile is_digit (drop 12 (''at position '' @ ds @ rest)) = ds"
  using assms takeWhile_digits [OF assms(2,3)] by (simp_all add: position_here_def)

text \<open>
  The pattern finds the number that follows the leftmost \<open>at position\<close>: when the message
  is \<open>pre @ ''at position '' @ ds @ rest\<close> with \<open>ds\<close> a maximal run of digits and no match
  starts inside \<open>pre\<close>, the capture group is \<open>ds\<close>.
\<close>

lemma positionMatch_first:
  assumes "ds \<noteq> []" "\<forall>c \<in> set ds. is_digit c" "rest = [] \<or> \<not> is_digit (hd rest)"
    and "\<forall>i < length pre. \<not> position_here (drop i (pre @ ''at position '' @ ds @ rest))"
  shows "positionMatch (pre @ ''at position '' @ ds @ rest) = Some ds"
  using assms(4)
proof (induction pre)
  case Nil
  have "positionMatch (''at position '' @ ds @ rest) = Some ds"
    using position_here_literal [OF assms(1-3)]
    by (metis append_Cons positionMatch.simps(2))
  then show ?case by simp
next
  case (Cons p ps)
  have h0: "\<not> position_here ((p # ps) @ ''at position '' @ ds @ rest)"
    using Cons.prems by (metis drop0 length_greater_0_conv list.distinct(1))
  have "\<forall>i < length ps. \<not> position_here (drop i (ps @ ''at position '' @ ds @ rest))"
  proof (intro allI impI)
    fix i assume "i < length ps"
    then have "Suc i < length (p # ps)" by simp
    then have "\<not> position_here (drop (Suc i) ((p # ps) @ ''at position '' @ ds @ rest))"
      using Cons.prems by blast
    then show "\<not> position_here (drop i (ps @ ''at position '' @ ds @ rest))" by simp
  qed
  then have "positionMatch (ps @ ''at position '' @ ds @ rest) = Some ds"
    by (rule Cons.IH)
  with h0 show ?case by simp
qed

text \<open>
  Claim C4. \<open>isValidPinDataJSON(data)\<close> returns true exactly when \<open>JSON.parse(data)\<close>
  succeeds; it calls \<open>$showError\<close> once when parsing fails and not at all when it
  succeeds.
\<close>

theorem isValidPinDataJSON_iff_parse:
  "isValidPinDataJSON ctx data =
     (JSON_parse ctx data = None, snd (isValidPinDataJSON ctx data)) \<and>
   length (snd (isValidPinDataJSON ctx data)) = (if JSON_parse ctx data = None then 0 else 1)"
  by (simp add: isValidPinDataJSON_def split: option.split)

text \<open>
  Claim C9. \<open>isValidPinDataSize(data)\<close> returns true exactly when the store's
  \<open>pinDataSize\<close> plus \<open>stringSizeInBytes(data)\<close> is at most
  \<open>MAX_WORKFLOW_PINNED_DATA_SIZE\<close>, and shows the too-large error exactly when it returns
  false. \<open>isValidPinData\<close> checks the JSON first: when that check fails, its result is
  false with the JSON error alone, whatever the store's size, the size function and the
  limit are.
\<close>

theorem isValidPinDataSize_iff_fits:
  "fst (isValidPinDataSize ctx data) =
     (pinDataSize ctx + stringSizeInBytes ctx data \<le> MAX_WORKFLOW_PINNED_DATA_SIZE ctx) \<and>
   snd (isValidPinDataSize ctx data) =
     (if fst (isValidPinDataSize ctx data) then []
      else [ShowError (baseText ctx ''ndv.pinData.error.tooLarge.description'')
              (baseText ctx ''ndv.pinData.error.tooLarge.title'')]) \<and>
   (JSON_parse ctx data \<noteq> None \<longrightarrow>
      isValidPinData (ctx\<lparr>pinDataSize := s, stringSizeInBytes := f,
                          MAX_WORKFLOW_PINNED_DATA_SIZE := m\<rparr>) data =
        (False, snd (isValidPinDataJSON ctx data)))"
  by (auto simp: isValidPinDataSize_def isValidPinData_def isValidPinDataJSON_def
      json_error_message_def Let_def split: option.split)

theorem isValidPinDataSize_iff_fits_witness:
  "JSON_parse sample_context sample_data \<noteq> None \<and>
   fst (isValidPinDataSize sample_context sample_data) \<and>
   snd (isValidPinDataSize sample_context sample_data) = [] \<and>
   isValidPinData (sample_context\<lparr>pinDataSize := 99999999, stringSizeInBytes := (\<lambda>s. 0),
                          MAX_WORKFLOW_PINNED_DATA_SIZE := 0\<rparr>) sample_data =
        (False, snd (isValidPinDataJSON sample_context sample_data))"
  using isValidPinDataSize_iff_fits [where ctx = sample_context and data = sample_data
      and s = 99999999 and f = "\<lambda>s. 0" and m = 0]
  by (simp add: sample_context_def sample_data_def isValidPinDataSize_def)

text \<open>
  Claim C10. When \<open>JSON.parse\<close> fails with a message that contains \<open>at position N\<close>
  (the leftmost such place, \<open>N\<close> written with the digits \<open>ds\<close>), the message shown ends
  with \<open>, line L.\<close> where \<open>L\<close> is one more than the number of line feeds among the first
  \<open>N\<close> characters of \<open>data\<close>.
\<close>

theorem json_error_line_number:
  assumes "JSON_parse ctx data = Some (pre @ ''at position '' @ ds @ rest)"
    and "ds \<noteq> []" and "\<forall>c \<in> set ds. is_digit c"
    and "rest = [] \<or> \<not> is_digit (hd rest)"
    and "\<forall>i < length pre. \<not> position_here (drop i (pre @ ''at position '' @ ds @ rest))"
  shows "\<exists>m title. snd (isValidPinDataJSON ctx data) = [ShowError m title] \<and>
     suffix ('', line '' @ dec (1 + count_list (take (parseInt ds) data) (CHR 0x0A)) @ ''.'') m"
proof -
  have "positionMatch (pre @ ''at position '' @ ds @ rest) = Some ds"
    using assms(2-5) by (rule positionMatch_first)
  then show ?thesis
    using assms(1)
    by (simp add: isValidPinDataJSON_def json_error_message_def Let_def
        lineBreaksUpToPosition_def suffix_def)
qed

theorem json_error_line_number_witness:
  "JSON_parse sample_context sample_data =
     Some (''Unexpected token } in JSON '' @ ''at position '' @ ''7'' @ []) \<and>
   snd (isValidPinDataJSON sample_context sample_data) =
     [ShowError ''Unexpected token } in JSON at position 7, line 3.''
        ''runData.editOutputInvalid''] \<and>
   suffix ('', line '' @ dec (1 + count_list (take (parseInt ''7'') sample_data) (CHR 0x0A)) @ ''.'')
     ''Unexpected token } in JSON at position 7, line 3.''"
proof -
  have p: "JSON_parse sample_context sample_data =
     Some (''Unexpected token } in JSON '' @ ''at position '' @ ''7'' @ [])"
    by (simp add: sample_context_def)
  have d: "\<forall>c \<in> set ''7''. is_digit c" by (simp add: is_digit_def)
  have f: "\<forall>i < length ''Unexpected token } in JSON ''.
     \<not> position_here (drop i (''Unexpected token } in JSON '' @ ''at position '' @ ''7'' @ []))"
    by (simp add: position_here_def All_less_Suc eval_nat_numeral)
  have s: "snd (isValidPinDataJSON sample_context sample_data) =
     [ShowError ''Unexpected token } in JSON at position 7, line 3.''
        ''runData.editOutputInvalid'']"
    by (simp add: sample_context_def sample_data_def isValidPinDataJSON_def
        json_error_message_def Let_def trim_def isWhiteSpace_def position_here_def
        is_digit_def parseInt_def lineBreaksUpToPosition_def dec.simps digit_char_def)
  from json_error_line_number [OF p _ d _ f] s p show ?thesis
    by auto
qed

section \<open>Properties of InternalHooksClass\<close>

subsection \<open>onWorkflowPostExecute\<close>

lemma error_properties_fields:
  assumes "error_properties this env workflow rd p = (p', g)"
  shows "workflow_id p' = workflow_id p" "success p' = success p" "is_manual p' = is_manual p"
    "execution_mode p' = execution_mode p" "user_id p' = user_id p"
    "version_cli p' = version_cli p"
  using assms
  by (auto simp: error_properties_def Let_def split: option.splits if_splits)

lemma error_properties_error:
  assumes "error_properties this env workflow rd p = (p', g)"
    and "error_message p = None" and "error_node_type p = None"
    and "error_message p' \<noteq> None \<or> error_node_type p' \<noteq> None"
  shows "\<not> success p \<and> rd_error (resultData (run_data rd)) \<noteq> None"
  using assms
  by (auto simp: error_properties_def Let_def split: option.splits if_splits)

lemma webhook_log_effects:
  "webhook_log g rd = (logged, thrown) \<Longrightarrow> TrackWorkflowExecution p \<notin> set logged"
  by (auto simp: webhook_log_def split: sum.splits option.splits list.splits if_splits)

lemma manual_exec_event_effects:
  "manual_exec_event this env workflow rd q g = (made, pushed, thrown) \<Longrightarrow>
   TrackWorkflowExecution p \<notin> set made"
  by (auto simp: manual_exec_event_def Let_def
      split: prod.splits option.splits if_splits dest: webhook_log_effects)

lemma assemble_effects:
  "assemble this env workflow runData userId = (properties, made, pushed, thrown) \<Longrightarrow>
   TrackWorkflowExecution p \<notin> set made"
  by (auto simp: assemble_def Let_def
      split: prod.splits option.splits if_splits dest: manual_exec_event_effects)

text \<open>
  The only call of \<open>trackWorkflowExecution\<close> is the one in the final \<open>return\<close>, with the
  assembled properties.
\<close>

lemma onWorkflowPostExecute_tracked:
  assumes "TrackWorkflowExecution p \<in>
    set (effects (onWorkflowPostExecute this env executionId workflow runData userId))"
  shows "p = fst (assemble this env workflow runData userId) \<and> id_truthy (wf_id workflow)"
  using assms
  by (auto simp: onWorkflowPostExecute_def
      split: if_splits prod.splits option.splits dest: assemble_effects)

lemma assemble_properties:
  assumes "assemble this env workflow (Some rd) userId = (p, rest)"
  shows "success p = (finished rd = Some True)"
    and "is_manual p = (mode rd = ''manual'')"
    and "execution_mode p = Some (mode rd)"
    and "workflow_id p = id_toString (the (wf_id workflow))"
    and "error_message p \<noteq> None \<or> error_node_type p \<noteq> None \<Longrightarrow>
         \<not> success p \<and> rd_error (resultData (run_data rd)) \<noteq> None"
proof -
  obtain q g where e: "error_properties this env workflow rd q = (p, g)"
    and q: "q = \<lparr>workflow_id = id_toString (the (wf_id workflow)),
             success = False, error_node_type = None, is_manual = False,
             user_id = (if truthy userId then userId else None), version_cli = versionCli this,
             execution_mode = None, error_message = None, node_graph = None,
             node_graph_string = None, error_node_id = None\<rparr>
             \<lparr>execution_mode := Some (mode rd), success := (finished rd = Some True),
              is_manual := (mode rd = ''manual'')\<rparr>"
    using assms
    by (auto simp: assemble_def Let_def split: prod.splits if_splits)
  show "success p = (finished rd = Some True)"
    using error_properties_fields(2) [OF e] q by simp
  show "is_manual p = (mode rd = ''manual'')"
    using error_properties_fields(3) [OF e] q by simp
  show "execution_mode p = Some (mode rd)"
    using error_properties_fields(4) [OF e] q by simp
  show "workflow_id p = id_toString (the (wf_id workflow))"
    using error_properties_fields(1) [OF e] q by simp
  show "\<not> success p \<and> rd_error (resultData (run_data rd)) \<noteq> None"
    if "error_message p \<noteq> None \<or> error_node_type p \<noteq> None"
    using error_properties_error [OF e _ _ that] error_properties_fields(2) [OF e] q by simp
qed

text \<open>
  Unless the assembly throws, a call with a truthy \<open>workflow.id\<close> ends with exactly
  these two calls, so \<open>trackWorkflowExecution\<close> is called once.
\<close>

lemma onWorkflowPostExecute_tracks_once:
  assumes "id_truthy (wf_id workflow)"
    and "\<not> assembly_throws this env workflow runData userId"
  shows "\<exists>made. TrackWorkflowExecution (fst (assemble this env workflow runData userId))
             \<notin> set made \<and>
     effects (onWorkflowPostExecute this env executionId workflow runData userId) =
       made @ [PersistBinaryData executionId,
               TrackWorkflowExecution (fst (assemble this env workflow runData userId))]"
proof -
  obtain properties made pushed thrown where
    a: "assemble this env workflow runData userId = (properties, made, pushed, thrown)"
    by (metis prod.collapse)
  with assms have n: "thrown = None" by (simp add: assembly_throws_def)
  have "TrackWorkflowExecution properties \<notin> set made"
    using a by (rule assemble_effects)
  then show ?thesis
    using assms(1) a n by (simp add: onWorkflowPostExecute_def)
qed

text \<open>
  Claim C2. For a truthy \<open>workflow.id\<close> and a given \<open>runData\<close>, the properties passed to
  \<open>trackWorkflowExecution\<close> have \<open>success\<close> true exactly when \<open>runData.finished\<close> is
  truthy, \<open>is_manual\<close> true exactly when the mode is \<open>manual\<close>, \<open>execution_mode\<close> equal to
  the mode, \<open>workflow_id\<close> equal to \<open>workflow.id.toString()\<close>, and \<open>error_message\<close> or
  \<open>error_node_type\<close> set only when \<open>success\<close> is false and the result data has an error.
\<close>

theorem onWorkflowPostExecute_properties:
  assumes "id_truthy (wf_id workflow)"
    and "TrackWorkflowExecution p \<in>
      set (effects (onWorkflowPostExecute this env executionId workflow (Some rd) userId))"
  shows "success p = (finished rd = Some True) \<and>
         is_manual p = (mode rd = ''manual'') \<and>
         execution_mode p = Some (mode rd) \<and>
         workflow_id p = id_toString (the (wf_id workflow)) \<and>
         (error_message p \<noteq> None \<or> error_node_type p \<noteq> None \<longrightarrow>
            \<not> success p \<and> rd_error (resultData (run_data rd)) \<noteq> None)"
proof -
  have "p = fst (assemble this env workflow (Some rd) userId)"
    using onWorkflowPostExecute_tracked [OF assms(2)] by simp
  then obtain rest where "assemble this env workflow (Some rd) userId = (p, rest)"
    by (metis prod.collapse)
  from assemble_properties [OF this] show ?thesis by blast
qed

lemma sample_run_assembled:
  "assemble sample_hooks sample_modules sample_workflow (Some sample_run) (Some ''u1'') =
     (sample_properties,
      [ConsoleLog (JString ''A''), ConsoleLog (JString ''B''), ConsoleLog (JString ''C''),
       ConsoleLog (JString ''h''),
       Track ''Manual workflow exec finished''
         [(''workflow_id'', JId (NumberId 12)),
          (''status'', JString ''failed''),
          (''error_message'', JString ''boom''),
          (''error_node_type'', JString ''n8n-nodes-base.webhook''),
          (''node_graph'', JGraph (nodeGraph sample_graph)),
          (''node_graph_string'', JString ''{}''),
          (''error_node_id'', JString ''0'')]],
      [Resolved], None)"
  by (simp add: assemble_def error_properties_def manual_exec_event_def webhook_log_def
      webhook_main_data_def sample_hooks_def sample_modules_def sample_workflow_def
      sample_run_def sample_properties_def sample_telemetry_def sample_graph_def
      constructor_def truthy_def get_property_def optional_string_def optional_id_def
      Let_def dec.simps digit_char_def)

theorem onWorkflowPostExecute_properties_witness:
  "id_truthy (wf_id sample_workflow) \<and>
   TrackWorkflowExecution sample_properties \<in>
     set (effects (onWorkflowPostExecute sample_hooks sample_modules ''231'' sample_workflow
            (Some sample_run) (Some ''u1''))) \<and>
   success sample_properties = (finished sample_run = Some True) \<and>
   is_manual sample_properties = (mode sample_run = ''manual'') \<and>
   execution_mode sample_properties = Some (mode sample_run) \<and>
   workflow_id sample_properties = id_toString (the (wf_id sample_workflow)) \<and>
   error_message sample_properties \<noteq> None \<and>
   \<not> success sample_properties \<and>
   rd_error (resultData (run_data sample_run)) \<noteq> None"
proof -
  have i: "id_truthy (wf_id sample_workflow)"
    by (simp add: sample_workflow_def id_truthy_def)
  have t: "TrackWorkflowExecution sample_properties \<in>
     set (effects (onWorkflowPostExecute sample_hooks sample_modules ''231'' sample_workflow
            (Some sample_run) (Some ''u1'')))"
    using i by (simp add: onWorkflowPostExecute_def sample_run_assembled)
  have m: "error_message sample_properties \<noteq> None"
    by (simp add: sample_properties_def)
  from onWorkflowPostExecute_properties [OF i t] i t m show ?thesis by blast
qed

text \<open>
  Claim C8. When \<open>workflow.id\<close> is absent or falsy, the method resolves at once and has
  no effect: no call of \<open>track\<close>, of \<open>trackWorkflowExecution\<close> or of
  \<open>persistBinaryDataForExecutionId\<close>.
\<close>

theorem onWorkflowPostExecute_no_id:
  assumes "\<not> id_truthy (wf_id workflow)"
  shows "onWorkflowPostExecute this env executionId workflow runData userId =
     \<lparr>this_after = this, effects = [], settled = Resolved\<rparr>"
  using assms by (simp add: onWorkflowPostExecute_def)

theorem onWorkflowPostExecute_no_id_witness:
  "\<not> id_truthy (wf_id unsaved_workflow) \<and>
   onWorkflowPostExecute failing_hooks sample_modules ''231'' unsaved_workflow
       (Some sample_run) (Some ''u1'') =
     \<lparr>this_after = failing_hooks, effects = [], settled = Resolved\<rparr>"
proof -
  have n: "\<not> id_truthy (wf_id unsaved_workflow)"
    by (simp add: unsaved_workflow_def id_truthy_def)
  from onWorkflowPostExecute_no_id [OF n] n show ?thesis by simp
qed

lemma Promise_all_append:
  "Promise_all (ps @ qs) =
     (case Promise_all ps of Resolved \<Rightarrow> Promise_all qs | Rejected e \<Rightarrow> Rejected e)"
  by (induction ps rule: Promise_all.induct) simp_all

lemma webhook_log_outcomes:
  "webhook_log g rd = (logged, thrown) \<Longrightarrow>
   Promise_all (map (effect_outcome this env) logged) = Resolved"
  by (auto simp: webhook_log_def split: sum.splits option.splits list.splits if_splits)

lemma manual_exec_event_outcomes:
  "manual_exec_event this env workflow rd q g = (made, pushed, None) \<Longrightarrow>
   Promise_all (map (effect_outcome this env) made) = Promise_all pushed"
  using webhook_log_outcomes [where this = this and env = env]
  by (auto simp: manual_exec_event_def Let_def Promise_all_append
      split: prod.splits option.splits if_splits)

lemma assemble_outcomes:
  "assemble this env workflow runData userId = (properties, made, pushed, None) \<Longrightarrow>
   Promise_all (map (effect_outcome this env) made) = Promise_all pushed"
  using manual_exec_event_outcomes [where this = this and env = env]
  by (auto simp: assemble_def Let_def split: prod.splits option.splits if_splits)

text \<open>
  Claim C1, as amended. The method has no error handling of its own. Unless the assembly
  of the payload throws, the returned promise is the \<open>Promise.all\<close> of the calls the
  method made: it resolves when the promises of \<open>track\<close>,
  \<open>persistBinaryDataForExecutionId\<close> and \<open>trackWorkflowExecution\<close> all resolve, and it
  rejects with the reason of a rejected one otherwise.
\<close>

theorem onWorkflowPostExecute_settles:
  assumes "\<not> assembly_throws this env workflow runData userId"
  shows "settled (onWorkflowPostExecute this env executionId workflow runData userId) =
     Promise_all (map (effect_outcome this env)
       (effects (onWorkflowPostExecute this env executionId workflow runData userId)))"
proof (cases "id_truthy (wf_id workflow)")
  case False
  then show ?thesis by (simp add: onWorkflowPostExecute_def)
next
  case True
  obtain properties made pushed thrown where
    a: "assemble this env workflow runData userId = (properties, made, pushed, thrown)"
    by (metis prod.collapse)
  with assms True have n: "thrown = None" by (simp add: assembly_throws_def)
  have "Promise_all (map (effect_outcome this env) made) = Promise_all pushed"
    using assemble_outcomes a n by blast
  then show ?thesis
    using True a n by (simp add: onWorkflowPostExecute_def Promise_all_append)
qed

theorem onWorkflowPostExecute_settles_witness:
  "\<not> assembly_throws sample_hooks sample_modules sample_workflow (Some sample_run)
       (Some ''u1'') \<and>
   settled (onWorkflowPostExecute sample_hooks sample_modules ''231'' sample_workflow
       (Some sample_run) (Some ''u1'')) =
     Promise_all (map (effect_outcome sample_hooks sample_modules)
       (effects (onWorkflowPostExecute sample_hooks sample_modules ''231'' sample_workflow
          (Some sample_run) (Some ''u1'')))) \<and>
   settled (onWorkflowPostExecute sample_hooks sample_modules ''231'' sample_workflow
       (Some sample_run) (Some ''u1'')) = Resolved"
proof -
  have n: "\<not> assembly_throws sample_hooks sample_modules sample_workflow (Some sample_run)
       (Some ''u1'')"
    by (simp add: assembly_throws_def sample_run_assembled)
  have r: "settled (onWorkflowPostExecute sample_hooks sample_modules ''231'' sample_workflow
       (Some sample_run) (Some ''u1'')) = Resolved"
  proof -
    have "id_truthy (wf_id sample_workflow)"
      by (simp add: sample_workflow_def id_truthy_def)
    moreover have "persistBinaryDataForExecutionId sample_modules ''231'' = Resolved"
      by (simp add: sample_modules_def)
    moreover have "trackWorkflowExecution (telemetry sample_hooks) sample_properties = Resolved"
      by (simp add: sample_hooks_def sample_telemetry_def constructor_def)
    ultimately show ?thesis
      by (simp add: onWorkflowPostExecute_def sample_run_assembled)
  qed
  from onWorkflowPostExecute_settles [OF n, of "''231''"] n r show ?thesis by simp
qed

text \<open>
  The claim as stated fails: when \<open>trackWorkflowExecution\<close> rejects, so does the promise
  that \<open>onWorkflowPostExecute\<close> returns.
\<close>

theorem onWorkflowPostExecute_rejects:
  "settled (onWorkflowPostExecute failing_hooks sample_modules ''231'' sample_workflow
     None None) = Rejected (Failure ''analytics unreachable'')"
  by (simp add: onWorkflowPostExecute_def assemble_def failing_hooks_def failing_telemetry_def
      sample_telemetry_def sample_modules_def sample_workflow_def constructor_def
      id_truthy_def truthy_def Let_def)

text \<open>
  The read of the webhook node's run data: for a manual run of the whole workflow whose
  run data has no entry for the webhook node, the body throws a TypeError after logging
  \<open>A\<close> and \<open>B\<close>, and nothing is tracked.
\<close>

lemma onWorkflowPostExecute_webhook_entry_absent:
  "onWorkflowPostExecute sample_hooks sample_modules ''231'' sample_workflow
     (Some absent_run) (Some ''u1'') =
   \<lparr>this_after = sample_hooks,
    effects = [ConsoleLog (JString ''A''), ConsoleLog (JString ''B'')],
    settled = Rejected (TypeError ''0'')\<rparr>"
  by (simp add: onWorkflowPostExecute_def assemble_def error_properties_def
      manual_exec_event_def webhook_log_def webhook_main_data_def sample_hooks_def
      sample_modules_def sample_workflow_def absent_run_def sample_run_def
      sample_telemetry_def sample_graph_def constructor_def truthy_def id_truthy_def
      get_property_def optional_string_def optional_id_def Let_def)

subsection \<open>onWorkflowSaved\<close>

text \<open>
  Claim C5. \<open>onWorkflowSaved\<close> makes exactly one call of \<open>track\<close>, for the event
  \<open>User saved workflow\<close>; in its payload \<open>notes_count_overlapping\<close> and
  \<open>notes_count_non_overlapping\<close> add up to the number of notes of the generated node
  graph, and \<open>num_tags\<close> is the length of \<open>workflow.tags\<close> when there are tags and 0
  otherwise.
\<close>

theorem onWorkflowSaved_payload:
  "\<exists>props a b.
     effects (onWorkflowSaved this env userId workflow publicApi) =
       [Track ''User saved workflow'' props] \<and>
     get_property props ''notes_count_overlapping'' = JNumber a \<and>
     get_property props ''notes_count_non_overlapping'' = JNumber b \<and>
     a + b =
       int (length (graph_notes (nodeGraph (generateNodesGraph env workflow (nodeTypes this))))) \<and>
     get_property props ''num_tags'' =
       JNumber (case wf_tags workflow of None \<Rightarrow> 0 | Some tags \<Rightarrow> int (length tags))"
  by (simp add: onWorkflowSaved_def return_track_def get_property_def Let_def)

subsection \<open>The instance is never assigned to\<close>

text \<open>
  Claim C6. No method changes the instance: after any call, and after any sequence of
  calls, \<open>telemetry\<close>, \<open>versionCli\<close> and \<open>nodeTypes\<close> are what the constructor set.
\<close>

theorem hooks_keep_instance:
  "this_after (invoke env (constructor t v n) c) = constructor t v n \<and>
   invoke_all env (constructor t v n) cs = constructor t v n"
proof -
  have one: "this_after (invoke env this c) = this" for this :: "'a InternalHooksClass" and c
    by (cases c)
      (auto simp: onServerStarted_def onPersonalizationSurveySubmitted_def
        onWorkflowCreated_def onWorkflowDeleted_def onWorkflowSaved_def
        onWorkflowPostExecute_def onN8nStop_def onUserDeletion_def forward_def
        return_track_def Let_def split: prod.splits option.splits)
  have "invoke_all env this cs = this" for this :: "'a InternalHooksClass"
    by (induction cs arbitrary: this) (simp_all add: one)
  with one show ?thesis by simp
qed

subsection \<open>onPersonalizationSurveySubmitted\<close>






end
